theory Spec2Isabelle
  imports Main "HOL-Library.Word" "HOL-Library.Sublist"
begin

section \<open>Device-bound DNS lookup: \<^verbatim>\<open>psiphon/LookupIP.go\<close>\<close>

text \<open>
  The file holds two functions. \<^verbatim>\<open>LookupIP\<close> dispatches on the presence of
  \<^verbatim>\<open>config.BindToDeviceProvider\<close>; \<^verbatim>\<open>bindLookupIP\<close> creates a datagram
  socket, hands it to the provider, connects it to the configured resolver, wraps it as
  a \<^verbatim>\<open>net.Conn\<close>, sends one A query and collects the A records of the reply.

  Both functions are sequences of calls into the Go runtime, the operating system and the
  DNS package. The embedding makes these calls explicit in two ways. The outcome of every
  external call is read from a record \<open>world\<close> (one field per external function, giving
  its result as a function of the arguments passed), and every external call that a
  function makes is appended, with its arguments, to a list of \<open>event\<close>s that is returned
  beside the Go result. A property of the code is then a statement over all worlds: a
  world fixes one outcome for every call, and every combination of outcomes is some world.
  The pointer \<^verbatim>\<open>config\<close> is taken to be non-nil.
\<close>

subsection \<open>Values\<close>

text \<open>
  A Go \<^verbatim>\<open>error\<close> is taken by its message (the interface's only method). A slice that
  may be \<^verbatim>\<open>nil\<close> is an \<open>option\<close>: \<open>None\<close> is \<^verbatim>\<open>nil\<close>. \<^verbatim>\<open>net.IP\<close> is
  \<^verbatim>\<open>[]byte\<close>; \<^verbatim>\<open>time.Duration\<close> is a 64-bit integer of nanoseconds.
\<close>

type_synonym error = string
type_synonym fd = int
type_synonym IP = "8 word list"
type_synonym Duration = "64 word"
type_synonym Time = int

text \<open>
  \<^verbatim>\<open>os.NewFile(fd, name)\<close> wraps the descriptor it is given (it does not duplicate it),
  so an \<^verbatim>\<open>*os.File\<close> is the pair of both. A \<^verbatim>\<open>net.Conn\<close> made by
  \<^verbatim>\<open>net.FileConn\<close> is a connection of its own, named by its own descriptor.
\<close>

datatype File = File (file_fd: fd) (file_name: string)

datatype Conn = Conn (conn_fd: fd)

record SockaddrInet4 =
  Port :: int
  Addr :: "8 word list"

text \<open>
  DNS resource records are values of the interface \<^verbatim>\<open>dns.RR\<close>; the code tells
  \<^verbatim>\<open>*dns.A\<close> (owner name and address) from every other record type.
\<close>

datatype RR =
    RR_A string IP
  | RR_AAAA string IP
  | RR_CNAME string string
  | RR_Other string nat

record dns_Question =
  Name :: string
  Qtype :: nat
  Qclass :: nat

record Msg =
  RecursionDesired :: bool
  Question :: "dns_Question list"
  Answer :: "RR list"

text \<open>
  The fields of \<^verbatim>\<open>DialConfig\<close> that the file reads. The provider is an interface
  value (\<open>None\<close> is \<^verbatim>\<open>nil\<close>) with the single method \<^verbatim>\<open>BindToDevice\<close>.
\<close>

record DialConfig =
  BindToDeviceProvider :: "(fd \<Rightarrow> error option) option"
  BindToDeviceDnsServer :: string
  ConnectTimeout :: Duration

text \<open>
  The external functions. \<open>ContextError\<close> is the repository's helper that wraps an
  error (its source is not part of the file); it receives the error only. \<open>time_Now\<close>
  is indexed by the number of earlier clock readings of the call. \<open>platform_resolver\<close>
  is the resolver of the platform, which \<^verbatim>\<open>net.LookupIP\<close> consults for a host name.
\<close>

record world =
  net_ParseIP :: "string \<Rightarrow> IP option"
  platform_resolver :: "string \<Rightarrow> IP list option \<times> error option"
  syscall_Socket :: "int \<Rightarrow> int \<Rightarrow> int \<Rightarrow> error + fd"
  syscall_Connect :: "fd \<Rightarrow> SockaddrInet4 \<Rightarrow> error option"
  net_FileConn :: "File \<Rightarrow> error + Conn"
  time_Now :: "nat \<Rightarrow> Time"
  dns_Fqdn :: "string \<Rightarrow> string"
  dns_WriteMsg :: "Conn \<Rightarrow> Msg \<Rightarrow> error option"
  dns_ReadMsg :: "Conn \<Rightarrow> error + Msg"
  ContextError :: "error \<Rightarrow> error"

datatype event =
    Ev_platform_resolver string
  | Ev_Socket int int int
  | Ev_BindToDevice fd
  | Ev_Connect fd SockaddrInet4
  | Ev_FileConn File
  | Ev_SetReadDeadline Conn Time
  | Ev_SetWriteDeadline Conn Time
  | Ev_WriteMsg Conn Msg
  | Ev_ReadMsg Conn
  | Ev_ConnClose Conn
  | Ev_FileClose File
  | Ev_Close fd

text \<open>A call returns its two results, or panics (a method call on a nil interface).\<close>

datatype 'a outcome = Return 'a | Panic

type_synonym result = "(IP list option \<times> error option) outcome \<times> event list"

subsection \<open>Constants and library functions\<close>

definition DNS_PORT :: int where
  "DNS_PORT = 53"

definition AF_INET :: int where
  "AF_INET = 2"

definition SOCK_DGRAM :: int where
  "SOCK_DGRAM = 2"

definition TypeA :: nat where
  "TypeA = 1"

definition ClassINET :: nat where
  "ClassINET = 1"

definition errors_New :: "string \<Rightarrow> error" where
  "errors_New text = text"

text \<open>
  \<^verbatim>\<open>net.IP.To4\<close>: a 4-byte address is returned as it is, a 16-byte address with the
  IPv4-mapped prefix (ten zero bytes, \<open>0xff\<close>, \<open>0xff\<close>) gives its last four bytes, and
  every other value gives \<^verbatim>\<open>nil\<close>.
\<close>

definition isZeros :: "8 word list \<Rightarrow> bool" where
  "isZeros p = list_all (\<lambda>b. b = 0) p"

definition To4 :: "IP \<Rightarrow> IP option" where
  "To4 ip =
     (if length ip = 4 then Some ip
      else if length ip = 16 \<and> isZeros (take 10 ip) \<and> ip ! 10 = 0xff \<and> ip ! 11 = 0xff
      then Some (drop 12 ip)
      else None)"

text \<open>
  The builtin \<^verbatim>\<open>copy(dst, src)\<close>: the first \<open>min (len dst) (len src)\<close> elements of
  \<open>dst\<close> are overwritten; a nil source has length 0.
\<close>

definition copy :: "'a list \<Rightarrow> 'a list option \<Rightarrow> 'a list" where
  "copy dst src =
     (case src of
        None \<Rightarrow> dst
      | Some s \<Rightarrow> take (length dst) s @ drop (length s) dst)"

text \<open>\<^verbatim>\<open>time.Time.Add\<close>, on nanosecond time stamps.\<close>

definition Time_Add :: "Time \<Rightarrow> Duration \<Rightarrow> Time" where
  "Time_Add t d = t + sint d"

text \<open>\<^verbatim>\<open>new(dns.Msg)\<close> and \<^verbatim>\<open>(*dns.Msg).SetQuestion\<close>.\<close>

definition new_Msg :: Msg where
  "new_Msg = \<lparr>RecursionDesired = False, Question = [], Answer = []\<rparr>"

definition SetQuestion :: "Msg \<Rightarrow> string \<Rightarrow> nat \<Rightarrow> Msg" where
  "SetQuestion m z t =
     m\<lparr>RecursionDesired := True,
       Question := [\<lparr>Name = z, Qtype = t, Qclass = ClassINET\<rparr>]\<rparr>"

text \<open>
  \<^verbatim>\<open>net.LookupIP\<close> of the standard library: a host that is itself a literal IP address
  is answered with that address before any resolver is consulted; every other host is
  handed to the platform resolver, whose answer is returned as it is.
\<close>

definition net_LookupIP :: "world \<Rightarrow> string \<Rightarrow> result" where
  "net_LookupIP w host =
     (case net_ParseIP w host of
        Some ip \<Rightarrow> (Return (Some [ip], None), [])
      | None \<Rightarrow> (Return (platform_resolver w host), [Ev_platform_resolver host]))"

subsection \<open>\<^verbatim>\<open>bindLookupIP\<close>\<close>

text \<open>
  Lines 112 to 117: the loop over \<^verbatim>\<open>response.Answer\<close>, with \<open>addrs\<close> the slice built
  so far.
\<close>

fun collectAddrs :: "IP list \<Rightarrow> RR list \<Rightarrow> IP list" where
  "collectAddrs addrs [] = addrs"
| "collectAddrs addrs (answer # rest) =
     (case answer of
        RR_A hdr a \<Rightarrow> collectAddrs (addrs @ [a]) rest
      | _ \<Rightarrow> collectAddrs addrs rest)"

text \<open>Lines 102 to 104: the query.\<close>

definition makeQuery :: "world \<Rightarrow> string \<Rightarrow> Msg" where
  "makeQuery w host = (SetQuestion new_Msg (dns_Fqdn w host) TypeA)\<lparr>RecursionDesired := True\<rparr>"

text \<open>
  Lines 102 to 118, the part of the body that runs once \<^verbatim>\<open>defer dnsConn.Close()\<close> is
  registered. The result of \<^verbatim>\<open>WriteMsg\<close> is not bound to anything in the source.
\<close>

definition bindLookupIP_exchange :: "world \<Rightarrow> string \<Rightarrow> Conn \<Rightarrow> result" where
  "bindLookupIP_exchange w host dnsConn =
     (let query = makeQuery w host;
          written = dns_WriteMsg w dnsConn query;
          tr = [Ev_WriteMsg dnsConn query, Ev_ReadMsg dnsConn]
      in case dns_ReadMsg w dnsConn of
           Inl err \<Rightarrow> (Return (None, Some (ContextError w err)), tr)
         | Inr response \<Rightarrow> (Return (Some (collectAddrs [] (Answer response)), None), tr))"

text \<open>
  Lines 87 to 101, the part that runs once \<^verbatim>\<open>defer file.Close()\<close> is registered;
  the deferred \<^verbatim>\<open>dnsConn.Close()\<close> ends the trace of the part it guards.
\<close>

definition bindLookupIP_file :: "world \<Rightarrow> string \<Rightarrow> DialConfig \<Rightarrow> File \<Rightarrow> result" where
  "bindLookupIP_file w host config file =
     (case net_FileConn w file of
        Inl err \<Rightarrow> (Return (None, Some (ContextError w err)), [Ev_FileConn file])
      | Inr conn \<Rightarrow>
          (let deadlines =
                 (if ConnectTimeout config \<noteq> 0
                  then [Ev_SetReadDeadline conn (Time_Add (time_Now w 0) (ConnectTimeout config)),
                        Ev_SetWriteDeadline conn (Time_Add (time_Now w 1) (ConnectTimeout config))]
                  else []);
               (r, tr) = bindLookupIP_exchange w host conn
           in (r, [Ev_FileConn file] @ deadlines @ tr @ [Ev_ConnClose conn])))"

text \<open>
  Lines 65 to 86, the part that runs once \<^verbatim>\<open>defer syscall.Close(socketFd)\<close> is
  registered; the deferred \<^verbatim>\<open>file.Close()\<close> ends the trace of the part it guards.
\<close>

definition bindLookupIP_socket :: "world \<Rightarrow> string \<Rightarrow> DialConfig \<Rightarrow> fd \<Rightarrow> result" where
  "bindLookupIP_socket w host config socketFd =
     (case BindToDeviceProvider config of
        None \<Rightarrow> (Panic, [])
      | Some provider \<Rightarrow>
          (let bound = provider socketFd;
               tr0 = [Ev_BindToDevice socketFd]
           in case net_ParseIP w (BindToDeviceDnsServer config) of
                None \<Rightarrow>
                  (Return (None, Some (ContextError w (errors_New ''invalid IP address''))), tr0)
              | Some ipAddr \<Rightarrow>
                  (let ip = copy [0, 0, 0, 0] (To4 ipAddr);
                       sockAddr = \<lparr>Port = DNS_PORT, Addr = ip\<rparr>;
                       tr1 = tr0 @ [Ev_Connect socketFd sockAddr]
                   in case syscall_Connect w socketFd sockAddr of
                        Some err \<Rightarrow> (Return (None, Some (ContextError w err)), tr1)
                      | None \<Rightarrow>
                          (let file = File socketFd '''';
                               (r, tr) = bindLookupIP_file w host config file
                           in (r, tr1 @ tr @ [Ev_FileClose file])))))"

text \<open>The whole function; the deferred \<^verbatim>\<open>syscall.Close(socketFd)\<close> runs last.\<close>

definition bindLookupIP :: "world \<Rightarrow> string \<Rightarrow> DialConfig \<Rightarrow> result" where
  "bindLookupIP w host config =
     (case net_ParseIP w host of
        Some ipAddr \<Rightarrow> (Return (Some [ipAddr], None), [])
      | None \<Rightarrow>
          (case syscall_Socket w AF_INET SOCK_DGRAM 0 of
             Inl err \<Rightarrow>
               (Return (None, Some (ContextError w err)), [Ev_Socket AF_INET SOCK_DGRAM 0])
           | Inr socketFd \<Rightarrow>
               (let (r, tr) = bindLookupIP_socket w host config socketFd
                in (r, [Ev_Socket AF_INET SOCK_DGRAM 0] @ tr @ [Ev_Close socketFd]))))"

subsection \<open>\<^verbatim>\<open>LookupIP\<close>\<close>

definition LookupIP :: "world \<Rightarrow> string \<Rightarrow> DialConfig \<Rightarrow> result" where
  "LookupIP w host config =
     (if BindToDeviceProvider config \<noteq> None
      then bindLookupIP w host config
      else net_LookupIP w host)"

subsection \<open>Reading a trace\<close>

text \<open>
  The descriptor that a close call closes: \<^verbatim>\<open>syscall.Close\<close> the one it is given,
  \<^verbatim>\<open>(*os.File).Close\<close> the one the file wraps, and closing a connection its own.
\<close>

fun closed_fd :: "event \<Rightarrow> fd option" where
  "closed_fd (Ev_Close d) = Some d"
| "closed_fd (Ev_FileClose f) = Some (file_fd f)"
| "closed_fd (Ev_ConnClose c) = Some (conn_fd c)"
| "closed_fd _ = None"

definition closes_of :: "fd \<Rightarrow> event list \<Rightarrow> event list" where
  "closes_of d tr = filter (\<lambda>e. closed_fd e = Some d) tr"

fun is_Connect :: "event \<Rightarrow> bool" where
  "is_Connect (Ev_Connect d sa) = True"
| "is_Connect _ = False"

fun is_BindToDevice :: "event \<Rightarrow> bool" where
  "is_BindToDevice (Ev_BindToDevice d) = True"
| "is_BindToDevice _ = False"

fun is_deadline :: "event \<Rightarrow> bool" where
  "is_deadline (Ev_SetReadDeadline c t) = True"
| "is_deadline (Ev_SetWriteDeadline c t) = True"
| "is_deadline _ = False"

fun is_A :: "RR \<Rightarrow> bool" where
  "is_A (RR_A hdr a) = True"
| "is_A _ = False"

text \<open>The addresses of the A records of an answer section, in the order of the section.\<close>

fun addressRecords :: "RR list \<Rightarrow> IP list" where
  "addressRecords [] = []"
| "addressRecords (RR_A hdr a # rest) = a # addressRecords rest"
| "addressRecords (other # rest) = addressRecords rest"

subsection \<open>Example worlds\<close>

definition v4InV6Prefix :: "8 word list" where
  "v4InV6Prefix = [0, 0, 0, 0, 0, 0, 0, 0, 0, 0, 0xff, 0xff]"

definition IPv4 :: "8 word \<Rightarrow> 8 word \<Rightarrow> 8 word \<Rightarrow> 8 word \<Rightarrow> IP" where
  "IPv4 a b c d = v4InV6Prefix @ [a, b, c, d]"

definition googleV6 :: IP where
  "googleV6 = [0x20, 0x01, 0x48, 0x60, 0x48, 0x60, 0, 0, 0, 0, 0, 0, 0, 0, 0x88, 0x88]"

text \<open>
  \<^verbatim>\<open>net.ParseIP\<close> on the strings the examples use: a dotted IPv4 address (returned in
  its 16-byte form), an IPv6 address, an IPv4-mapped IPv6 address written in hexadecimal;
  the other strings of the examples are host names. In the example world every call
  succeeds, the socket gets descriptor 7, the connection made from it descriptor 8, the
  reply holds two A records among records of other types, and \<open>ContextError\<close> puts the
  name of the calling function before the message.
\<close>

definition exampleParseIP :: "string \<Rightarrow> IP option" where
  "exampleParseIP s =
     (if s = ''8.8.8.8'' then Some (IPv4 8 8 8 8)
      else if s = ''2001:4860:4860::8888'' then Some googleV6
      else if s = ''::ffff:808:808'' then Some (IPv4 8 8 8 8)
      else None)"

definition exampleFqdn :: "string \<Rightarrow> string" where
  "exampleFqdn s = (if s \<noteq> [] \<and> last s = CHR ''.'' then s else s @ ''.'')"

definition exampleResponse :: Msg where
  "exampleResponse =
     \<lparr>RecursionDesired = True,
      Question = [\<lparr>Name = ''example.com.'', Qtype = TypeA, Qclass = ClassINET\<rparr>],
      Answer = [RR_CNAME ''example.com.'' ''www.example.net.'',
                RR_A ''www.example.net.'' [93, 184, 216, 34],
                RR_AAAA ''www.example.net.'' googleV6,
                RR_A ''www.example.net.'' [93, 184, 216, 35]]\<rparr>"

definition exampleWorld :: world where
  "exampleWorld =
     \<lparr>net_ParseIP = exampleParseIP,
      platform_resolver =
        (\<lambda>host. if host = ''example.com''
                then (Some [[93, 184, 216, 34], [93, 184, 216, 35]], None)
                else (None, Some ''no such host'')),
      syscall_Socket = (\<lambda>domain typ proto. Inr 7),
      syscall_Connect = (\<lambda>d sa. None),
      net_FileConn = (\<lambda>f. Inr (Conn 8)),
      time_Now = (\<lambda>n. 1000 + int n),
      dns_Fqdn = exampleFqdn,
      dns_WriteMsg = (\<lambda>c m. None),
      dns_ReadMsg = (\<lambda>c. Inr exampleResponse),
      ContextError = (\<lambda>e. ''psiphon.bindLookupIP: '' @ e)\<rparr>"

definition exampleProvider :: "fd \<Rightarrow> error option" where
  "exampleProvider d = None"

definition exampleConfig :: DialConfig where
  "exampleConfig =
     \<lparr>BindToDeviceProvider = Some exampleProvider,
      BindToDeviceDnsServer = ''8.8.8.8'',
      ConnectTimeout = 5000000000\<rparr>"

definition exampleQuery :: Msg where
  "exampleQuery =
     \<lparr>RecursionDesired = True,
      Question = [\<lparr>Name = ''example.com.'', Qtype = 1, Qclass = 1\<rparr>],
      Answer = []\<rparr>"

text \<open>Configurations that differ from \<open>exampleConfig\<close> in one field.\<close>

definition unboundConfig :: DialConfig where
  "unboundConfig = exampleConfig\<lparr>BindToDeviceProvider := None\<rparr>"

definition hostnameResolverConfig :: DialConfig where
  "hostnameResolverConfig = exampleConfig\<lparr>BindToDeviceDnsServer := ''dns.example''\<rparr>"

definition ipv6ResolverConfig :: DialConfig where
  "ipv6ResolverConfig = exampleConfig\<lparr>BindToDeviceDnsServer := ''2001:4860:4860::8888''\<rparr>"

definition mappedResolverConfig :: DialConfig where
  "mappedResolverConfig = exampleConfig\<lparr>BindToDeviceDnsServer := ''::ffff:808:808''\<rparr>"

definition noTimeoutConfig :: DialConfig where
  "noTimeoutConfig = exampleConfig\<lparr>ConnectTimeout := 0\<rparr>"

text \<open>A world in which the query cannot be written and no reply arrives.\<close>

definition writeFailureWorld :: world where
  "writeFailureWorld =
     exampleWorld\<lparr>dns_WriteMsg := (\<lambda>c m. Some ''write: network is unreachable''),
                  dns_ReadMsg := (\<lambda>c. Inl ''i/o timeout'')\<rparr>"

text \<open>
  A string is an IPv6 literal when it has a colon and \<^verbatim>\<open>net.ParseIP\<close> accepts it
  (the text of an IPv4 address has no colon, so an accepted string with a colon was read
  as IPv6).
\<close>

definition isIPv6Literal :: "world \<Rightarrow> string \<Rightarrow> bool" where
  "isIPv6Literal w s = (CHR '':'' \<in> set s \<and> net_ParseIP w s \<noteq> None)"

text \<open>A provider whose binding fails.\<close>

definition failingProvider :: "fd \<Rightarrow> error option" where
  "failingProvider d = Some ''setsockopt: no such device''"

text \<open>An error carries a host name when the name is part of its message.\<close>

definition mentions :: "error \<Rightarrow> string \<Rightarrow> bool" where
  "mentions e host = sublist host e"

section \<open>Properties\<close>

lemmas bindLookupIP_unfold =
  bindLookupIP_def bindLookupIP_socket_def bindLookupIP_file_def bindLookupIP_exchange_def
  Let_def

lemmas library_unfold =
  makeQuery_def SetQuestion_def new_Msg_def To4_def copy_def isZeros_def errors_New_def
  AF_INET_def SOCK_DGRAM_def DNS_PORT_def TypeA_def ClassINET_def Time_Add_def

lemmas example_unfold =
  exampleWorld_def exampleConfig_def exampleParseIP_def exampleFqdn_def exampleResponse_def
  exampleQuery_def exampleProvider_def IPv4_def v4InV6Prefix_def googleV6_def
  unboundConfig_def hostnameResolverConfig_def ipv6ResolverConfig_def mappedResolverConfig_def
  noTimeoutConfig_def writeFailureWorld_def

subsection \<open>The loop over the answer section\<close>

lemma collectAddrs_addressRecords:
  "collectAddrs addrs answers = addrs @ addressRecords answers"
proof (induction answers arbitrary: addrs)
  case Nil
  show ?case by simp
next
  case (Cons answer rest)
  show ?case by (cases answer) (simp_all add: Cons.IH)
qed

lemma addressRecords_no_A:
  "filter is_A answers = [] \<Longrightarrow> addressRecords answers = []"
proof (induction answers)
  case Nil
  show ?case by simp
next
  case (Cons answer rest)
  then show ?case by (cases answer) (simp_all split: if_splits)
qed

subsection \<open>Runs in the example worlds\<close>

lemma example_run:
  "bindLookupIP exampleWorld ''example.com'' exampleConfig =
     (Return (Some [[93, 184, 216, 34], [93, 184, 216, 35]], None),
      [Ev_Socket 2 2 0, Ev_BindToDevice 7,
       Ev_Connect 7 \<lparr>Port = 53, Addr = [8, 8, 8, 8]\<rparr>,
       Ev_FileConn (File 7 []),
       Ev_SetReadDeadline (Conn 8) 5000001000, Ev_SetWriteDeadline (Conn 8) 5000001001,
       Ev_WriteMsg (Conn 8) exampleQuery, Ev_ReadMsg (Conn 8),
       Ev_ConnClose (Conn 8), Ev_FileClose (File 7 []), Ev_Close 7])"
  by (simp add: bindLookupIP_unfold library_unfold example_unfold)

lemma example_run_no_timeout:
  "bindLookupIP exampleWorld ''example.com'' noTimeoutConfig =
     (Return (Some [[93, 184, 216, 34], [93, 184, 216, 35]], None),
      [Ev_Socket 2 2 0, Ev_BindToDevice 7,
       Ev_Connect 7 \<lparr>Port = 53, Addr = [8, 8, 8, 8]\<rparr>,
       Ev_FileConn (File 7 []),
       Ev_WriteMsg (Conn 8) exampleQuery, Ev_ReadMsg (Conn 8),
       Ev_ConnClose (Conn 8), Ev_FileClose (File 7 []), Ev_Close 7])"
  by (simp add: bindLookupIP_unfold library_unfold example_unfold)

lemma example_run_hostname_resolver:
  "bindLookupIP exampleWorld ''example.com'' hostnameResolverConfig =
     (Return (None, Some ''psiphon.bindLookupIP: invalid IP address''),
      [Ev_Socket 2 2 0, Ev_BindToDevice 7, Ev_Close 7])"
  by (simp add: bindLookupIP_unfold library_unfold example_unfold)

lemma example_run_ipv6_resolver:
  "bindLookupIP exampleWorld ''example.com'' ipv6ResolverConfig =
     (Return (Some [[93, 184, 216, 34], [93, 184, 216, 35]], None),
      [Ev_Socket 2 2 0, Ev_BindToDevice 7,
       Ev_Connect 7 \<lparr>Port = 53, Addr = [0, 0, 0, 0]\<rparr>,
       Ev_FileConn (File 7 []),
       Ev_SetReadDeadline (Conn 8) 5000001000, Ev_SetWriteDeadline (Conn 8) 5000001001,
       Ev_WriteMsg (Conn 8) exampleQuery, Ev_ReadMsg (Conn 8),
       Ev_ConnClose (Conn 8), Ev_FileClose (File 7 []), Ev_Close 7])"
  by (simp add: bindLookupIP_unfold library_unfold example_unfold)

lemma example_run_mapped_resolver:
  "bindLookupIP exampleWorld ''example.com'' mappedResolverConfig =
     (Return (Some [[93, 184, 216, 34], [93, 184, 216, 35]], None),
      [Ev_Socket 2 2 0, Ev_BindToDevice 7,
       Ev_Connect 7 \<lparr>Port = 53, Addr = [8, 8, 8, 8]\<rparr>,
       Ev_FileConn (File 7 []),
       Ev_SetReadDeadline (Conn 8) 5000001000, Ev_SetWriteDeadline (Conn 8) 5000001001,
       Ev_WriteMsg (Conn 8) exampleQuery, Ev_ReadMsg (Conn 8),
       Ev_ConnClose (Conn 8), Ev_FileClose (File 7 []), Ev_Close 7])"
  by (simp add: bindLookupIP_unfold library_unfold example_unfold)

lemma example_run_write_failure:
  "bindLookupIP writeFailureWorld ''example.com'' exampleConfig =
     (Return (None, Some ''psiphon.bindLookupIP: i/o timeout''),
      [Ev_Socket 2 2 0, Ev_BindToDevice 7,
       Ev_Connect 7 \<lparr>Port = 53, Addr = [8, 8, 8, 8]\<rparr>,
       Ev_FileConn (File 7 []),
       Ev_SetReadDeadline (Conn 8) 5000001000, Ev_SetWriteDeadline (Conn 8) 5000001001,
       Ev_WriteMsg (Conn 8) exampleQuery, Ev_ReadMsg (Conn 8),
       Ev_ConnClose (Conn 8), Ev_FileClose (File 7 []), Ev_Close 7])"
  by (simp add: bindLookupIP_unfold library_unfold example_unfold)

lemma example_facts:
  "net_ParseIP exampleWorld ''example.com'' = None"
  "net_ParseIP exampleWorld ''8.8.8.8'' = Some (IPv4 8 8 8 8)"
  "net_ParseIP exampleWorld ''dns.example'' = None"
  "net_ParseIP exampleWorld ''2001:4860:4860::8888'' = Some googleV6"
  "net_ParseIP exampleWorld ''::ffff:808:808'' = Some (IPv4 8 8 8 8)"
  "syscall_Socket exampleWorld AF_INET SOCK_DGRAM 0 = Inr 7"
  "syscall_Connect exampleWorld d sa = None"
  "net_FileConn exampleWorld f = Inr (Conn 8)"
  "dns_ReadMsg exampleWorld c = Inr exampleResponse"
  "BindToDeviceProvider exampleConfig = Some exampleProvider"
  by (simp_all add: exampleWorld_def exampleConfig_def exampleParseIP_def)

subsection \<open>The result of the write\<close>

lemma exchange_ignores_WriteMsg:
  "bindLookupIP_exchange (w\<lparr>dns_WriteMsg := f\<rparr>) host c = bindLookupIP_exchange w host c"
  by (simp add: bindLookupIP_exchange_def makeQuery_def Let_def split: sum.split)

lemma file_ignores_WriteMsg:
  "bindLookupIP_file (w\<lparr>dns_WriteMsg := f\<rparr>) host config file =
     bindLookupIP_file w host config file"
  by (simp add: bindLookupIP_file_def exchange_ignores_WriteMsg Let_def split: sum.split)

lemma socket_ignores_WriteMsg:
  "bindLookupIP_socket (w\<lparr>dns_WriteMsg := f\<rparr>) host config d =
     bindLookupIP_socket w host config d"
  by (simp add: bindLookupIP_socket_def file_ignores_WriteMsg Let_def split: option.split)

lemma bindLookupIP_ignores_WriteMsg:
  "bindLookupIP (w\<lparr>dns_WriteMsg := f\<rparr>) host config = bindLookupIP w host config"
  by (simp add: bindLookupIP_def socket_ignores_WriteMsg split: option.split sum.split)

subsection \<open>Release on every exit\<close>

text \<open>
  Once the socket is created, the last call of \<^verbatim>\<open>bindLookupIP\<close> is the close of its
  descriptor, on every exit (a return with or without error, or a panic).
\<close>

lemma socket_closed_on_every_exit:
  assumes "net_ParseIP w host = None"
    and "syscall_Socket w AF_INET SOCK_DGRAM 0 = Inr socketFd"
  shows "\<exists>r pre. bindLookupIP w host config = (r, pre @ [Ev_Close socketFd])"
  using assms by (simp add: bindLookupIP_def split: prod.split)

text \<open>
  A file that was handed to \<^verbatim>\<open>net.FileConn\<close> is closed, and a connection on which
  the query was written is closed.
\<close>

lemma handles_closed_on_every_exit:
  assumes "bindLookupIP w host config = (r, tr)"
  shows "(Ev_FileConn file \<in> set tr \<longrightarrow> Ev_FileClose file \<in> set tr) \<and>
         (Ev_WriteMsg conn query \<in> set tr \<longrightarrow> Ev_ConnClose conn \<in> set tr)"
  using assms
  by (auto simp add: bindLookupIP_unfold split: option.splits sum.splits prod.splits if_splits)

text \<open>
  On every run that reaches \<^verbatim>\<open>os.NewFile\<close>, the last two calls close the descriptor of
  the socket: first through the file that wraps it, then directly.
\<close>

lemma socket_descriptor_closed_twice_after_wrap:
  assumes "net_ParseIP w host = None"
    and "BindToDeviceProvider config = Some provider"
    and "syscall_Socket w AF_INET SOCK_DGRAM 0 = Inr socketFd"
    and "net_ParseIP w (BindToDeviceDnsServer config) = Some ipAddr"
    and "syscall_Connect w socketFd \<lparr>Port = DNS_PORT, Addr = copy [0, 0, 0, 0] (To4 ipAddr)\<rparr> = None"
  shows "\<exists>r pre. bindLookupIP w host config =
           (r, pre @ [Ev_FileClose (File socketFd []), Ev_Close socketFd])"
  using assms
  by (simp add: bindLookupIP_def bindLookupIP_socket_def Let_def split: prod.split)

lemma closes_of_socket_after_wrap:
  assumes "net_ParseIP w host = None"
    and "BindToDeviceProvider config = Some provider"
    and "syscall_Socket w AF_INET SOCK_DGRAM 0 = Inr socketFd"
    and "net_ParseIP w (BindToDeviceDnsServer config) = Some ipAddr"
    and "syscall_Connect w socketFd \<lparr>Port = DNS_PORT, Addr = copy [0, 0, 0, 0] (To4 ipAddr)\<rparr> = None"
  shows "2 \<le> length (closes_of socketFd (snd (bindLookupIP w host config)))"
proof -
  from socket_descriptor_closed_twice_after_wrap [OF assms]
  obtain r pre where "bindLookupIP w host config =
      (r, pre @ [Ev_FileClose (File socketFd []), Ev_Close socketFd])"
    by blast
  then show ?thesis
    by (simp add: closes_of_def)
qed

subsection \<open>Further facts\<close>

lemma LookupIP_bound:
  "BindToDeviceProvider config = Some provider \<Longrightarrow>
     LookupIP w host config = bindLookupIP w host config"
  by (simp add: LookupIP_def)

lemma LookupIP_unbound_host_name:
  assumes "BindToDeviceProvider config = None"
    and "net_ParseIP w host = None"
  shows "LookupIP w host config =
           (Return (platform_resolver w host), [Ev_platform_resolver host])"
  using assms by (simp add: LookupIP_def net_LookupIP_def)

lemma LookupIP_never_panics:
  "fst (LookupIP w host config) \<noteq> Panic"
  by (auto simp add: LookupIP_def net_LookupIP_def bindLookupIP_unfold
      split: option.splits sum.splits prod.splits)

text \<open>
  With a resolver address that does not parse, what \<^verbatim>\<open>bindLookupIP\<close> returns and
  calls is the same for all host names that are not literals.
\<close>

lemma error_independent_of_host:
  assumes "net_ParseIP w host = None"
    and "net_ParseIP w host' = None"
    and "net_ParseIP w (BindToDeviceDnsServer config) = None"
  shows "bindLookupIP w host config = bindLookupIP w host' config"
  using assms
  by (simp add: bindLookupIP_def bindLookupIP_socket_def split: option.split sum.split)

text \<open>
  For a 16-byte address, \<^verbatim>\<open>To4\<close> yields nothing exactly when the address does not
  start with the IPv4-mapped prefix.
\<close>

lemma To4_sixteen_bytes:
  assumes "length ip = 16"
  shows "To4 ip = None \<longleftrightarrow> take 12 ip \<noteq> v4InV6Prefix"
proof -
  from assms obtain b0 b1 b2 b3 b4 b5 b6 b7 b8 b9 b10 b11 b12 b13 b14 b15
    where "ip = [b0, b1, b2, b3, b4, b5, b6, b7, b8, b9, b10, b11, b12, b13, b14, b15]"
    by (auto simp add: length_Suc_conv eval_nat_numeral)
  then show ?thesis
    by (auto simp add: To4_def isZeros_def v4InV6Prefix_def)
qed

subsection \<open>Literal host names\<close>



subsection \<open>The resolver address\<close>

text \<open>
  Claim C3, as amended. On the bound path with a host name that is not a literal, once
  the socket is created: if the configured resolver address does not parse as an IP
  address (IPv4 or IPv6), the lookup fails with the wrapped error
  \<^verbatim>\<open>invalid IP address\<close>, and no connect is attempted: the only calls are the socket
  creation, the device binding and the close of the socket.
\<close>

theorem C3_invalid_resolver_address:
  assumes "net_ParseIP w host = None"
    and "BindToDeviceProvider config = Some provider"
    and "syscall_Socket w AF_INET SOCK_DGRAM 0 = Inr socketFd"
    and "net_ParseIP w (BindToDeviceDnsServer config) = None"
  shows "bindLookupIP w host config =
           (Return (None, Some (ContextError w (errors_New ''invalid IP address''))),
            [Ev_Socket AF_INET SOCK_DGRAM 0, Ev_BindToDevice socketFd, Ev_Close socketFd]) \<and>
         filter is_Connect (snd (bindLookupIP w host config)) = []"
  using assms by (simp add: bindLookupIP_def bindLookupIP_socket_def)

theorem C3_invalid_resolver_address_witness:
  "net_ParseIP exampleWorld ''example.com'' = None \<and>
   BindToDeviceProvider hostnameResolverConfig = Some exampleProvider \<and>
   syscall_Socket exampleWorld AF_INET SOCK_DGRAM 0 = Inr 7 \<and>
   net_ParseIP exampleWorld (BindToDeviceDnsServer hostnameResolverConfig) = None \<and>
   bindLookupIP exampleWorld ''example.com'' hostnameResolverConfig =
     (Return (None, Some ''psiphon.bindLookupIP: invalid IP address''),
      [Ev_Socket AF_INET SOCK_DGRAM 0, Ev_BindToDevice 7, Ev_Close 7]) \<and>
   filter is_Connect (snd (bindLookupIP exampleWorld ''example.com'' hostnameResolverConfig)) = []"
proof -
  have h1: "net_ParseIP exampleWorld ''example.com'' = None"
    by (rule example_facts)
  have h2: "BindToDeviceProvider hostnameResolverConfig = Some exampleProvider"
    by (simp add: hostnameResolverConfig_def exampleConfig_def)
  have h3: "syscall_Socket exampleWorld AF_INET SOCK_DGRAM 0 = Inr 7"
    by (rule example_facts)
  have h4: "net_ParseIP exampleWorld (BindToDeviceDnsServer hostnameResolverConfig) = None"
    by (simp add: hostnameResolverConfig_def example_facts)
  have ctx: "ContextError exampleWorld (errors_New ''invalid IP address'') =
      ''psiphon.bindLookupIP: invalid IP address''"
    by (simp add: exampleWorld_def errors_New_def)
  show ?thesis
    using h1 h2 h3 h4 C3_invalid_resolver_address [OF h1 h2 h3 h4] ctx
    by simp
qed

text \<open>
  The claim as stated fails for an IPv6 literal: \<^verbatim>\<open>2001:4860:4860::8888\<close> parses as
  an address, it has no 4-byte form, no error is returned, and the socket is connected.
\<close>

theorem C3_counterexample:
  "net_ParseIP exampleWorld ''example.com'' = None \<and>
   isIPv6Literal exampleWorld (BindToDeviceDnsServer ipv6ResolverConfig) \<and>
   To4 googleV6 = None \<and>
   fst (bindLookupIP exampleWorld ''example.com'' ipv6ResolverConfig) =
     Return (Some [[93, 184, 216, 34], [93, 184, 216, 35]], None) \<and>
   filter is_Connect (snd (bindLookupIP exampleWorld ''example.com'' ipv6ResolverConfig)) =
     [Ev_Connect 7 \<lparr>Port = 53, Addr = [0, 0, 0, 0]\<rparr>]"
proof -
  have literal: "isIPv6Literal exampleWorld (BindToDeviceDnsServer ipv6ResolverConfig)"
    by (simp add: isIPv6Literal_def ipv6ResolverConfig_def example_facts)
  have no4: "To4 googleV6 = None"
    by (simp add: To4_def googleV6_def isZeros_def)
  show ?thesis
    using literal no4 by (simp add: example_run_ipv6_resolver example_facts)
qed

text \<open>
  Claim C9, as amended. On the bound path with a host name that is not a literal, once
  the socket is created: if the configured resolver address parses as an address for
  which \<^verbatim>\<open>To4\<close> yields nothing (an IPv6 literal that is not IPv4-mapped), the parse
  step returns no error, the four-byte destination stays all zeros, and the third call
  of the function, before any query is written, connects the socket to 0.0.0.0, port 53.
\<close>

theorem C9_ipv6_resolver_connects_to_zero:
  assumes "net_ParseIP w host = None"
    and "BindToDeviceProvider config = Some provider"
    and "syscall_Socket w AF_INET SOCK_DGRAM 0 = Inr socketFd"
    and "net_ParseIP w (BindToDeviceDnsServer config) = Some ipAddr"
    and "To4 ipAddr = None"
  shows "copy [0, 0, 0, 0] (To4 ipAddr) = [0, 0, 0, 0] \<and>
         (\<exists>r rest. bindLookupIP w host config =
            (r, [Ev_Socket AF_INET SOCK_DGRAM 0, Ev_BindToDevice socketFd,
                 Ev_Connect socketFd \<lparr>Port = 53, Addr = [0, 0, 0, 0]\<rparr>] @ rest))"
  using assms
  by (simp add: bindLookupIP_def bindLookupIP_socket_def copy_def DNS_PORT_def Let_def
      split: option.split prod.split)

theorem C9_ipv6_resolver_connects_to_zero_witness:
  "net_ParseIP exampleWorld ''example.com'' = None \<and>
   BindToDeviceProvider ipv6ResolverConfig = Some exampleProvider \<and>
   syscall_Socket exampleWorld AF_INET SOCK_DGRAM 0 = Inr 7 \<and>
   net_ParseIP exampleWorld (BindToDeviceDnsServer ipv6ResolverConfig) = Some googleV6 \<and>
   To4 googleV6 = None \<and>
   copy [0, 0, 0, 0] (To4 googleV6) = [0, 0, 0, 0] \<and>
   (\<exists>r rest. bindLookupIP exampleWorld ''example.com'' ipv6ResolverConfig =
      (r, [Ev_Socket AF_INET SOCK_DGRAM 0, Ev_BindToDevice 7,
           Ev_Connect 7 \<lparr>Port = 53, Addr = [0, 0, 0, 0]\<rparr>] @ rest))"
proof -
  have h1: "net_ParseIP exampleWorld ''example.com'' = None"
    by (rule example_facts)
  have h2: "BindToDeviceProvider ipv6ResolverConfig = Some exampleProvider"
    by (simp add: ipv6ResolverConfig_def exampleConfig_def)
  have h3: "syscall_Socket exampleWorld AF_INET SOCK_DGRAM 0 = Inr 7"
    by (rule example_facts)
  have h4: "net_ParseIP exampleWorld (BindToDeviceDnsServer ipv6ResolverConfig) = Some googleV6"
    by (simp add: ipv6ResolverConfig_def example_facts)
  have h5: "To4 googleV6 = None"
    by (simp add: To4_def googleV6_def isZeros_def)
  show ?thesis
    using h1 h2 h3 h4 h5 C9_ipv6_resolver_connects_to_zero [OF h1 h2 h3 h4 h5]
    by simp
qed

text \<open>
  The claim as stated fails for an IPv6 literal that is IPv4-mapped:
  \<^verbatim>\<open>::ffff:808:808\<close> parses to the 16-byte form of 8.8.8.8, \<^verbatim>\<open>To4\<close> yields its
  last four bytes, and the socket is connected to 8.8.8.8, not to 0.0.0.0.
\<close>

theorem C9_counterexample:
  "net_ParseIP exampleWorld ''example.com'' = None \<and>
   isIPv6Literal exampleWorld (BindToDeviceDnsServer mappedResolverConfig) \<and>
   net_ParseIP exampleWorld (BindToDeviceDnsServer mappedResolverConfig) = Some (IPv4 8 8 8 8) \<and>
   To4 (IPv4 8 8 8 8) = Some [8, 8, 8, 8] \<and>
   filter is_Connect (snd (bindLookupIP exampleWorld ''example.com'' mappedResolverConfig)) =
     [Ev_Connect 7 \<lparr>Port = 53, Addr = [8, 8, 8, 8]\<rparr>]"
proof -
  have parsed:
    "net_ParseIP exampleWorld (BindToDeviceDnsServer mappedResolverConfig) = Some (IPv4 8 8 8 8)"
    by (simp add: mappedResolverConfig_def example_facts)
  have literal: "isIPv6Literal exampleWorld (BindToDeviceDnsServer mappedResolverConfig)"
    by (simp add: isIPv6Literal_def mappedResolverConfig_def example_facts)
  have mapped: "To4 (IPv4 8 8 8 8) = Some [8, 8, 8, 8]"
    by (simp add: To4_def IPv4_def v4InV6Prefix_def isZeros_def)
  show ?thesis
    using parsed literal mapped by (simp add: example_run_mapped_resolver example_facts)
qed

subsection \<open>The answer section\<close>

text \<open>
  Claim C5. When every step up to and including the read of the response succeeds, the
  returned list holds exactly the addresses of the A records of the response's answer
  section, in the order of the section, records of other types being skipped, and the
  error is nil; with no A record the list is empty (and not nil) and the error is nil.
\<close>

theorem C5_answer_addresses:
  assumes "net_ParseIP w host = None"
    and "BindToDeviceProvider config = Some provider"
    and "syscall_Socket w AF_INET SOCK_DGRAM 0 = Inr socketFd"
    and "net_ParseIP w (BindToDeviceDnsServer config) = Some ipAddr"
    and "syscall_Connect w socketFd \<lparr>Port = DNS_PORT, Addr = copy [0, 0, 0, 0] (To4 ipAddr)\<rparr> = None"
    and "net_FileConn w (File socketFd []) = Inr conn"
    and "dns_ReadMsg w conn = Inr response"
  shows "fst (bindLookupIP w host config) =
           Return (Some (addressRecords (Answer response)), None) \<and>
         (filter is_A (Answer response) = [] \<longrightarrow>
            fst (bindLookupIP w host config) = Return (Some [], None))"
proof -
  have run: "fst (bindLookupIP w host config) =
      Return (Some (collectAddrs [] (Answer response)), None)"
    using assms by (simp add: bindLookupIP_unfold)
  then have "fst (bindLookupIP w host config) =
      Return (Some (addressRecords (Answer response)), None)"
    by (simp add: collectAddrs_addressRecords)
  then show ?thesis
    by (simp add: addressRecords_no_A)
qed

theorem C5_answer_addresses_witness:
  "net_ParseIP exampleWorld ''example.com'' = None \<and>
   BindToDeviceProvider exampleConfig = Some exampleProvider \<and>
   syscall_Socket exampleWorld AF_INET SOCK_DGRAM 0 = Inr 7 \<and>
   net_ParseIP exampleWorld (BindToDeviceDnsServer exampleConfig) = Some (IPv4 8 8 8 8) \<and>
   syscall_Connect exampleWorld 7
     \<lparr>Port = DNS_PORT, Addr = copy [0, 0, 0, 0] (To4 (IPv4 8 8 8 8))\<rparr> = None \<and>
   net_FileConn exampleWorld (File 7 []) = Inr (Conn 8) \<and>
   dns_ReadMsg exampleWorld (Conn 8) = Inr exampleResponse \<and>
   addressRecords (Answer exampleResponse) = [[93, 184, 216, 34], [93, 184, 216, 35]] \<and>
   fst (bindLookupIP exampleWorld ''example.com'' exampleConfig) =
     Return (Some [[93, 184, 216, 34], [93, 184, 216, 35]], None)"
proof -
  have h1: "net_ParseIP exampleWorld ''example.com'' = None"
    by (rule example_facts)
  have h2: "BindToDeviceProvider exampleConfig = Some exampleProvider"
    by (rule example_facts)
  have h3: "syscall_Socket exampleWorld AF_INET SOCK_DGRAM 0 = Inr 7"
    by (rule example_facts)
  have h4: "net_ParseIP exampleWorld (BindToDeviceDnsServer exampleConfig) = Some (IPv4 8 8 8 8)"
    by (simp add: exampleConfig_def example_facts)
  have h5: "syscall_Connect exampleWorld 7
      \<lparr>Port = DNS_PORT, Addr = copy [0, 0, 0, 0] (To4 (IPv4 8 8 8 8))\<rparr> = None"
    by (rule example_facts)
  have h6: "net_FileConn exampleWorld (File 7 []) = Inr (Conn 8)"
    by (rule example_facts)
  have h7: "dns_ReadMsg exampleWorld (Conn 8) = Inr exampleResponse"
    by (rule example_facts)
  have records: "addressRecords (Answer exampleResponse) =
      [[93, 184, 216, 34], [93, 184, 216, 35]]"
    by (simp add: exampleResponse_def)
  show ?thesis
    using h1 h2 h3 h4 h5 h6 h7 records C5_answer_addresses [OF h1 h2 h3 h4 h5 h6 h7]
    by simp
qed

subsection \<open>Deadlines\<close>

text \<open>
  Claim C6. On the bound path, once the socket is wrapped as a connection: when the
  configured timeout is not zero, the read deadline and then the write deadline of that
  connection are set, each to the time of the call plus the timeout, immediately before
  the query is written, and no deadline is set afterwards; when the timeout is zero, no
  deadline is set at all.
\<close>

theorem C6_deadlines:
  assumes "net_ParseIP w host = None"
    and "BindToDeviceProvider config = Some provider"
    and "syscall_Socket w AF_INET SOCK_DGRAM 0 = Inr socketFd"
    and "net_ParseIP w (BindToDeviceDnsServer config) = Some ipAddr"
    and "syscall_Connect w socketFd \<lparr>Port = DNS_PORT, Addr = copy [0, 0, 0, 0] (To4 ipAddr)\<rparr> = None"
    and "net_FileConn w (File socketFd []) = Inr conn"
  shows "\<exists>r post. bindLookupIP w host config =
           (r, [Ev_Socket AF_INET SOCK_DGRAM 0, Ev_BindToDevice socketFd,
                Ev_Connect socketFd \<lparr>Port = DNS_PORT, Addr = copy [0, 0, 0, 0] (To4 ipAddr)\<rparr>,
                Ev_FileConn (File socketFd [])] @
               (if ConnectTimeout config \<noteq> 0
                then [Ev_SetReadDeadline conn (Time_Add (time_Now w 0) (ConnectTimeout config)),
                      Ev_SetWriteDeadline conn (Time_Add (time_Now w 1) (ConnectTimeout config))]
                else []) @
               Ev_WriteMsg conn (makeQuery w host) # post) \<and>
           filter is_deadline post = []"
  using assms by (simp add: bindLookupIP_unfold split: sum.split)

theorem C6_deadlines_witness:
  "net_ParseIP exampleWorld ''example.com'' = None \<and>
   BindToDeviceProvider exampleConfig = Some exampleProvider \<and>
   BindToDeviceProvider noTimeoutConfig = Some exampleProvider \<and>
   syscall_Socket exampleWorld AF_INET SOCK_DGRAM 0 = Inr 7 \<and>
   net_ParseIP exampleWorld (BindToDeviceDnsServer exampleConfig) = Some (IPv4 8 8 8 8) \<and>
   net_ParseIP exampleWorld (BindToDeviceDnsServer noTimeoutConfig) = Some (IPv4 8 8 8 8) \<and>
   syscall_Connect exampleWorld 7
     \<lparr>Port = DNS_PORT, Addr = copy [0, 0, 0, 0] (To4 (IPv4 8 8 8 8))\<rparr> = None \<and>
   net_FileConn exampleWorld (File 7 []) = Inr (Conn 8) \<and>
   ConnectTimeout exampleConfig = 5000000000 \<and>
   ConnectTimeout noTimeoutConfig = 0 \<and>
   (\<exists>r post. bindLookupIP exampleWorld ''example.com'' exampleConfig =
      (r, [Ev_Socket AF_INET SOCK_DGRAM 0, Ev_BindToDevice 7,
           Ev_Connect 7 \<lparr>Port = DNS_PORT, Addr = copy [0, 0, 0, 0] (To4 (IPv4 8 8 8 8))\<rparr>,
           Ev_FileConn (File 7 []),
           Ev_SetReadDeadline (Conn 8) (Time_Add (time_Now exampleWorld 0) 5000000000),
           Ev_SetWriteDeadline (Conn 8) (Time_Add (time_Now exampleWorld 1) 5000000000),
           Ev_WriteMsg (Conn 8) (makeQuery exampleWorld ''example.com'')] @ post) \<and>
      filter is_deadline post = []) \<and>
   (\<exists>r post. bindLookupIP exampleWorld ''example.com'' noTimeoutConfig =
      (r, [Ev_Socket AF_INET SOCK_DGRAM 0, Ev_BindToDevice 7,
           Ev_Connect 7 \<lparr>Port = DNS_PORT, Addr = copy [0, 0, 0, 0] (To4 (IPv4 8 8 8 8))\<rparr>,
           Ev_FileConn (File 7 []),
           Ev_WriteMsg (Conn 8) (makeQuery exampleWorld ''example.com'')] @ post) \<and>
      filter is_deadline post = [])"
proof -
  have h1: "net_ParseIP exampleWorld ''example.com'' = None"
    by (rule example_facts)
  have h2: "BindToDeviceProvider exampleConfig = Some exampleProvider"
    by (rule example_facts)
  have h2': "BindToDeviceProvider noTimeoutConfig = Some exampleProvider"
    by (simp add: noTimeoutConfig_def exampleConfig_def)
  have h3: "syscall_Socket exampleWorld AF_INET SOCK_DGRAM 0 = Inr 7"
    by (rule example_facts)
  have h4: "net_ParseIP exampleWorld (BindToDeviceDnsServer exampleConfig) = Some (IPv4 8 8 8 8)"
    by (simp add: exampleConfig_def example_facts)
  have h4': "net_ParseIP exampleWorld (BindToDeviceDnsServer noTimeoutConfig) = Some (IPv4 8 8 8 8)"
    by (simp add: noTimeoutConfig_def exampleConfig_def example_facts)
  have h5: "syscall_Connect exampleWorld 7
      \<lparr>Port = DNS_PORT, Addr = copy [0, 0, 0, 0] (To4 (IPv4 8 8 8 8))\<rparr> = None"
    by (rule example_facts)
  have h6: "net_FileConn exampleWorld (File 7 []) = Inr (Conn 8)"
    by (rule example_facts)
  have t: "ConnectTimeout exampleConfig = 5000000000"
    by (simp add: exampleConfig_def)
  have t': "ConnectTimeout noTimeoutConfig = 0"
    by (simp add: noTimeoutConfig_def)
  show ?thesis
    using h1 h2 h2' h3 h4 h4' h5 h6 t t'
      C6_deadlines [OF h1 h2 h3 h4 h5 h6] C6_deadlines [OF h1 h2' h3 h4' h5 h6]
    by simp
qed

subsection \<open>The device binding\<close>

text \<open>
  Claim C7. On the bound path with a host name that is not a literal, once the socket is
  created, the provider's \<^verbatim>\<open>BindToDevice\<close> is called on the descriptor of that socket
  as the call right after the socket creation, hence before any connect, and it is not
  called again. What the provider returns is not looked at: with any other provider in
  the configuration, the results and the calls of the lookup are the same.
\<close>

theorem C7_bind_once_result_ignored:
  assumes "net_ParseIP w host = None"
    and "BindToDeviceProvider config = Some provider"
    and "syscall_Socket w AF_INET SOCK_DGRAM 0 = Inr socketFd"
  shows "(\<exists>r rest. bindLookupIP w host config =
            (r, Ev_Socket AF_INET SOCK_DGRAM 0 # Ev_BindToDevice socketFd # rest) \<and>
            filter is_BindToDevice rest = []) \<and>
         bindLookupIP w host (config\<lparr>BindToDeviceProvider := Some other\<rparr>) =
           bindLookupIP w host config"
  using assms
  by (simp add: bindLookupIP_unfold split: option.split sum.split)

theorem C7_bind_once_result_ignored_witness:
  "net_ParseIP exampleWorld ''example.com'' = None \<and>
   BindToDeviceProvider exampleConfig = Some exampleProvider \<and>
   syscall_Socket exampleWorld AF_INET SOCK_DGRAM 0 = Inr 7 \<and>
   exampleProvider 7 = None \<and>
   failingProvider 7 = Some ''setsockopt: no such device'' \<and>
   (\<exists>r rest. bindLookupIP exampleWorld ''example.com'' exampleConfig =
      (r, Ev_Socket AF_INET SOCK_DGRAM 0 # Ev_BindToDevice 7 # rest) \<and>
      filter is_BindToDevice rest = []) \<and>
   bindLookupIP exampleWorld ''example.com''
       (exampleConfig\<lparr>BindToDeviceProvider := Some failingProvider\<rparr>) =
     bindLookupIP exampleWorld ''example.com'' exampleConfig"
proof -
  have h1: "net_ParseIP exampleWorld ''example.com'' = None"
    by (rule example_facts)
  have h2: "BindToDeviceProvider exampleConfig = Some exampleProvider"
    by (rule example_facts)
  have h3: "syscall_Socket exampleWorld AF_INET SOCK_DGRAM 0 = Inr 7"
    by (rule example_facts)
  have p: "exampleProvider 7 = None" "failingProvider 7 = Some ''setsockopt: no such device''"
    by (simp_all add: exampleProvider_def failingProvider_def)
  show ?thesis
    using h1 h2 h3 p C7_bind_once_result_ignored [OF h1 h2 h3, of failingProvider]
    by simp
qed

subsection \<open>Errors\<close>

text \<open>
  Claim C10. Whenever \<^verbatim>\<open>bindLookupIP\<close> returns an error that is not nil, the address
  list it returns is nil, whichever step failed.
\<close>

theorem C10_error_implies_nil_addrs:
  assumes "bindLookupIP w host config = (Return (addrs, Some e), tr)"
  shows "addrs = None"
  using assms
  by (auto simp add: bindLookupIP_unfold split: option.splits sum.splits prod.splits)

theorem C10_error_implies_nil_addrs_witness:
  "bindLookupIP writeFailureWorld ''example.com'' exampleConfig =
     (Return (None, Some ''psiphon.bindLookupIP: i/o timeout''),
      [Ev_Socket 2 2 0, Ev_BindToDevice 7,
       Ev_Connect 7 \<lparr>Port = 53, Addr = [8, 8, 8, 8]\<rparr>,
       Ev_FileConn (File 7 []),
       Ev_SetReadDeadline (Conn 8) 5000001000, Ev_SetWriteDeadline (Conn 8) 5000001001,
       Ev_WriteMsg (Conn 8) exampleQuery, Ev_ReadMsg (Conn 8),
       Ev_ConnClose (Conn 8), Ev_FileClose (File 7 []), Ev_Close 7]) \<and>
   fst (bindLookupIP writeFailureWorld ''example.com'' exampleConfig) =
     Return (None, Some ''psiphon.bindLookupIP: i/o timeout'')"
proof -
  note run = example_run_write_failure
  have "(None :: IP list option) = None"
    by (rule C10_error_implies_nil_addrs [OF run])
  with run show ?thesis
    using C10_error_implies_nil_addrs [OF run] by simp
qed

text \<open>
  Claim C8, as amended. Every error that \<^verbatim>\<open>bindLookupIP\<close> returns is
  \<^verbatim>\<open>ContextError\<close> applied to the error of the step that failed, the steps before
  it having succeeded: the socket creation; the parse of the resolver address, with the
  fixed error \<^verbatim>\<open>invalid IP address\<close>; the connect of this socket to the resolver;
  the wrapping of this socket as a connection; or the read of the response from that
  connection. \<^verbatim>\<open>ContextError\<close> is given that error only; the host name is not
  passed to it.
\<close>

theorem C8_errors_wrapped_by_ContextError:
  assumes "bindLookupIP w host config = (Return (addrs, Some e), tr)"
  shows "(\<exists>err. syscall_Socket w AF_INET SOCK_DGRAM 0 = Inl err \<and> e = ContextError w err) \<or>
         (\<exists>socketFd.
            syscall_Socket w AF_INET SOCK_DGRAM 0 = Inr socketFd \<and>
            net_ParseIP w (BindToDeviceDnsServer config) = None \<and>
            e = ContextError w (errors_New ''invalid IP address'')) \<or>
         (\<exists>socketFd ipAddr err.
            syscall_Socket w AF_INET SOCK_DGRAM 0 = Inr socketFd \<and>
            net_ParseIP w (BindToDeviceDnsServer config) = Some ipAddr \<and>
            syscall_Connect w socketFd
              \<lparr>Port = DNS_PORT, Addr = copy [0, 0, 0, 0] (To4 ipAddr)\<rparr> = Some err \<and>
            e = ContextError w err) \<or>
         (\<exists>socketFd ipAddr err.
            syscall_Socket w AF_INET SOCK_DGRAM 0 = Inr socketFd \<and>
            net_ParseIP w (BindToDeviceDnsServer config) = Some ipAddr \<and>
            syscall_Connect w socketFd
              \<lparr>Port = DNS_PORT, Addr = copy [0, 0, 0, 0] (To4 ipAddr)\<rparr> = None \<and>
            net_FileConn w (File socketFd []) = Inl err \<and>
            e = ContextError w err) \<or>
         (\<exists>socketFd ipAddr conn err.
            syscall_Socket w AF_INET SOCK_DGRAM 0 = Inr socketFd \<and>
            net_ParseIP w (BindToDeviceDnsServer config) = Some ipAddr \<and>
            syscall_Connect w socketFd
              \<lparr>Port = DNS_PORT, Addr = copy [0, 0, 0, 0] (To4 ipAddr)\<rparr> = None \<and>
            net_FileConn w (File socketFd []) = Inr conn \<and>
            dns_ReadMsg w conn = Inl err \<and>
            e = ContextError w err)"
  using assms
  by (auto simp add: bindLookupIP_unfold split: option.splits sum.splits prod.splits)

theorem C8_errors_wrapped_by_ContextError_witness:
  "bindLookupIP exampleWorld ''example.com'' hostnameResolverConfig =
     (Return (None, Some ''psiphon.bindLookupIP: invalid IP address''),
      [Ev_Socket 2 2 0, Ev_BindToDevice 7, Ev_Close 7]) \<and>
   syscall_Socket exampleWorld AF_INET SOCK_DGRAM 0 = Inr 7 \<and>
   net_ParseIP exampleWorld (BindToDeviceDnsServer hostnameResolverConfig) = None \<and>
   ''psiphon.bindLookupIP: invalid IP address'' =
     ContextError exampleWorld (errors_New ''invalid IP address'')"
proof -
  note run = example_run_hostname_resolver
  have sock: "syscall_Socket exampleWorld AF_INET SOCK_DGRAM 0 = Inr 7"
    by (rule example_facts)
  have resolver: "net_ParseIP exampleWorld (BindToDeviceDnsServer hostnameResolverConfig) = None"
    by (simp add: hostnameResolverConfig_def example_facts)
  have ctx: "''psiphon.bindLookupIP: invalid IP address'' =
      ContextError exampleWorld (errors_New ''invalid IP address'')"
    by (simp add: exampleWorld_def errors_New_def)
  show ?thesis
    using run sock resolver ctx C8_errors_wrapped_by_ContextError [OF run] by simp
qed

text \<open>
  The claim as stated fails: with a resolver address that is a host name, the error
  returned for \<^verbatim>\<open>example.com\<close> does not mention \<^verbatim>\<open>example.com\<close>, and it is the
  error returned for \<^verbatim>\<open>example.org\<close> as well.
\<close>

theorem C8_counterexample:
  "fst (bindLookupIP exampleWorld ''example.com'' hostnameResolverConfig) =
     Return (None, Some ''psiphon.bindLookupIP: invalid IP address'') \<and>
   \<not> mentions ''psiphon.bindLookupIP: invalid IP address'' ''example.com'' \<and>
   fst (bindLookupIP exampleWorld ''example.org'' hostnameResolverConfig) =
     Return (None, Some ''psiphon.bindLookupIP: invalid IP address'')"
proof -
  have a: "\<not> mentions ''psiphon.bindLookupIP: invalid IP address'' ''example.com''"
    unfolding mentions_def by code_simp
  have b: "fst (bindLookupIP exampleWorld ''example.org'' hostnameResolverConfig) =
      Return (None, Some ''psiphon.bindLookupIP: invalid IP address'')"
    by (simp add: bindLookupIP_unfold library_unfold example_unfold)
  show ?thesis
    using a b by (simp add: example_run_hostname_resolver)
qed

text \<open>
  Claim C2 fails on the code. Line 105 calls \<^verbatim>\<open>WriteMsg\<close> and drops its result: in a
  world where the write fails, the response is still read, and what the lookup returns
  is decided by the read alone (here the time-out of the read, wrapped).
\<close>

theorem C2_write_failure_is_dropped:
  "dns_WriteMsg writeFailureWorld (Conn 8) exampleQuery = Some ''write: network is unreachable'' \<and>
   bindLookupIP writeFailureWorld ''example.com'' exampleConfig =
     (Return (None, Some ''psiphon.bindLookupIP: i/o timeout''),
      [Ev_Socket 2 2 0, Ev_BindToDevice 7,
       Ev_Connect 7 \<lparr>Port = 53, Addr = [8, 8, 8, 8]\<rparr>,
       Ev_FileConn (File 7 []),
       Ev_SetReadDeadline (Conn 8) 5000001000, Ev_SetWriteDeadline (Conn 8) 5000001001,
       Ev_WriteMsg (Conn 8) exampleQuery, Ev_ReadMsg (Conn 8),
       Ev_ConnClose (Conn 8), Ev_FileClose (File 7 []), Ev_Close 7]) \<and>
   bindLookupIP
       (exampleWorld\<lparr>dns_WriteMsg := (\<lambda>c m. Some ''write: network is unreachable'')\<rparr>)
       ''example.com'' exampleConfig =
     bindLookupIP exampleWorld ''example.com'' exampleConfig"
proof -
  have a: "dns_WriteMsg writeFailureWorld (Conn 8) exampleQuery =
      Some ''write: network is unreachable''"
    by (simp add: writeFailureWorld_def)
  have b: "bindLookupIP
        (exampleWorld\<lparr>dns_WriteMsg := (\<lambda>c m. Some ''write: network is unreachable'')\<rparr>)
        ''example.com'' exampleConfig =
      bindLookupIP exampleWorld ''example.com'' exampleConfig"
    by (rule bindLookupIP_ignores_WriteMsg)
  show ?thesis
    using a b by (simp add: example_run_write_failure)
qed

subsection \<open>Release of the socket\<close>

text \<open>
  Claim C4 fails on the code in its second half. Once the socket is wrapped by
  \<^verbatim>\<open>os.NewFile\<close>, two deferred calls close the descriptor of the socket: the
  \<^verbatim>\<open>Close\<close> of the file that wraps it, and then \<^verbatim>\<open>syscall.Close\<close> on the descriptor
  itself. This holds when the lookup succeeds and when it fails after the wrap; when it
  fails before the wrap the descriptor is closed once.
\<close>

theorem C4_socket_descriptor_closed_twice:
  "closes_of 7 (snd (bindLookupIP exampleWorld ''example.com'' exampleConfig)) =
     [Ev_FileClose (File 7 []), Ev_Close 7] \<and>
   closes_of 8 (snd (bindLookupIP exampleWorld ''example.com'' exampleConfig)) =
     [Ev_ConnClose (Conn 8)] \<and>
   closes_of 7 (snd (bindLookupIP writeFailureWorld ''example.com'' exampleConfig)) =
     [Ev_FileClose (File 7 []), Ev_Close 7] \<and>
   closes_of 7 (snd (bindLookupIP exampleWorld ''example.com'' hostnameResolverConfig)) =
     [Ev_Close 7]"
  by (simp add: example_run example_run_write_failure example_run_hostname_resolver
      closes_of_def)

end
